theory Spec2Isabelle
  imports Main "HOL-Library.Char_ord" "HOL-Library.List_Lexorder"
begin

section \<open>The schema repository of quasar (internal/repository/repository.go)\<close>

text \<open>
  The repository keeps configuration schemas in etcd under keys of the form
  \<open>organization/namespace/schemaName/version\<close>. This theory embeds the functions of
  \<^verbatim>\<open>repository.go\<close>: \<open>NewClient\<close>, \<open>SaveConfigSchema\<close>, \<open>GetConfigSchema\<close>,
  \<open>DeleteConfigSchema\<close>, \<open>GetSchemasByPrefix\<close>, \<open>GetLatestVersionByPrefix\<close> and
  \<open>getSchemaDetailsFromKey\<close>.

  Go strings are byte strings: \<open>string\<close> (a list of 8-bit characters), compared
  bytewise, which is the order \<open><\<close> of \<open>char list\<close> used here.
\<close>

subsection \<open>Errors\<close>

text \<open>
  Every function of the file returns a Go \<open>error\<close>. The model keeps apart where an error
  value came from: the etcd client, the YAML library, the JSON library, or
  \<open>errors.New\<close> with its message. A run-time panic (an index out of range) is not a
  returned error in Go: it unwinds the caller. It is a constructor of its own, carrying
  the index and the length of the slice.
\<close>

datatype error =
    ClientError string
  | YamlError string
  | JsonError string
  | ErrorsNew string
  | PanicIndexOutOfRange nat nat

definition quote :: char where
  "quote = CHR 0x27"

definition key_exists :: "string \<Rightarrow> error" where
  \<comment> \<open>line 55: \<open>errors.New("Key '" + key + "' already exists!")\<close>\<close>
  "key_exists key = ErrorsNew (''Key '' @ [quote] @ key @ [quote] @ '' already exists!'')"

definition no_schema :: "string \<Rightarrow> error" where
  \<comment> \<open>line 113: \<open>errors.New("No schema with key '" + key + "' found!")\<close>\<close>
  "no_schema key = ErrorsNew (''No schema with key '' @ [quote] @ key @ [quote] @ '' found!'')"

subsection \<open>Messages of the proto package\<close>

record Timestamp =
  Seconds :: int
  Nanos :: int

record ConfigSchemaData =
  Schema :: string
  CreationTime :: "Timestamp option"

record ConfigSchemaDetails =
  Organization :: string
  Namespace :: string
  SchemaName :: string
  Version :: string

record ConfigSchema =
  SchemaDetails :: ConfigSchemaDetails
  SchemaData :: ConfigSchemaData

subsection \<open>The etcd client\<close>

text \<open>
  The store is external to the repository. Its content is a list of key-value pairs kept
  in ascending key order, one pair per key, which is also the order in which a range
  request answers. Any call of the client may fail (store unreachable, deadline of the
  context exceeded, request refused): \<open>pending\<close> is the schedule of these outcomes, one
  entry per call still to come, \<open>Some msg\<close> for a call that fails; an empty schedule
  means that no further call fails. A call that fails leaves the content as it is.
\<close>

record world =
  kvs :: "(string \<times> string) list"
  pending :: "string option list"

record GetResponse =
  Count :: int
  Kvs :: "(string \<times> string) list"

definition next_fault :: "world \<Rightarrow> string option" where
  "next_fault w = (case pending w of [] \<Rightarrow> None | f # _ \<Rightarrow> f)"

definition advance :: "world \<Rightarrow> world" where
  "advance w = w\<lparr>pending := tl (pending w)\<rparr>"

fun has_prefix :: "string \<Rightarrow> string \<Rightarrow> bool" where
  "has_prefix [] k = True"
| "has_prefix (p # ps) [] = False"
| "has_prefix (p # ps) (c # cs) = (p = c \<and> has_prefix ps cs)"

definition range_key :: "string \<Rightarrow> (string \<times> string) list \<Rightarrow> (string \<times> string) list" where
  "range_key key xs = filter (\<lambda>kv. fst kv = key) xs"

definition range_prefix :: "string \<Rightarrow> (string \<times> string) list \<Rightarrow> (string \<times> string) list" where
  "range_prefix p xs = filter (\<lambda>kv. has_prefix p (fst kv)) xs"

fun put_kv :: "string \<Rightarrow> string \<Rightarrow> (string \<times> string) list \<Rightarrow> (string \<times> string) list" where
  "put_kv k v [] = [(k, v)]"
| "put_kv k v (x # xs) =
     (if k = fst x then (k, v) # xs
      else if k < fst x then (k, v) # x # xs
      else x # put_kv k v xs)"

definition wf_store :: "(string \<times> string) list \<Rightarrow> bool" where
  "wf_store xs = sorted_wrt (<) (map fst xs)"

definition client_Get :: "world \<Rightarrow> string \<Rightarrow> (error + GetResponse) \<times> world" where
  \<comment> \<open>\<open>client.Get(ctx, key)\<close>\<close>
  "client_Get w key =
     (case next_fault w of
        Some msg \<Rightarrow> (Inl (ClientError msg), advance w)
      | None \<Rightarrow>
          (Inr \<lparr>Count = int (length (range_key key (kvs w))), Kvs = range_key key (kvs w)\<rparr>,
           advance w))"

definition client_Get_WithPrefix :: "world \<Rightarrow> string \<Rightarrow> (error + GetResponse) \<times> world" where
  \<comment> \<open>\<open>client.Get(ctx, prefix, clientv3.WithPrefix())\<close>\<close>
  "client_Get_WithPrefix w p =
     (case next_fault w of
        Some msg \<Rightarrow> (Inl (ClientError msg), advance w)
      | None \<Rightarrow>
          (Inr \<lparr>Count = int (length (range_prefix p (kvs w))), Kvs = range_prefix p (kvs w)\<rparr>,
           advance w))"

definition client_Put :: "world \<Rightarrow> string \<Rightarrow> string \<Rightarrow> (error + unit) \<times> world" where
  \<comment> \<open>\<open>client.Put(ctx, key, val)\<close>: writes unconditionally\<close>
  "client_Put w key val =
     (case next_fault w of
        Some msg \<Rightarrow> (Inl (ClientError msg), advance w)
      | None \<Rightarrow> (Inr (), (advance w)\<lparr>kvs := put_kv key val (kvs w)\<rparr>))"

definition client_Delete :: "world \<Rightarrow> string \<Rightarrow> (error + int) \<times> world" where
  \<comment> \<open>\<open>client.Delete(ctx, key)\<close>: the result is the field \<open>Deleted\<close> of the response\<close>
  "client_Delete w key =
     (case next_fault w of
        Some msg \<Rightarrow> (Inl (ClientError msg), advance w)
      | None \<Rightarrow>
          (Inr (int (length (range_key key (kvs w)))),
           (advance w)\<lparr>kvs := filter (\<lambda>kv. fst kv \<noteq> key) (kvs w)\<rparr>))"

subsection \<open>The YAML and JSON libraries\<close>

text \<open>
  \<open>yaml.YAMLToJSON\<close>, \<open>yaml.JSONToYAML\<close>, \<open>json.Marshal\<close> and \<open>json.Unmarshal\<close> are
  library functions outside the repository. The model takes them as a record of
  functions; the theorems below hold for every such record.
\<close>

record libs =
  YAMLToJSON :: "string \<Rightarrow> error + string"
  JSONToYAML :: "string \<Rightarrow> error + string"
  json_Marshal :: "ConfigSchemaData \<Rightarrow> error + string"
  json_Unmarshal :: "string \<Rightarrow> error + ConfigSchemaData"

subsection \<open>Key parsing\<close>

fun strings_Split :: "string \<Rightarrow> char \<Rightarrow> string list" where
  \<comment> \<open>\<open>strings.Split(s, sep)\<close> for a separator of one byte: never empty\<close>
  "strings_Split [] sep = [[]]"
| "strings_Split (c # cs) sep =
     (if c = sep then [] # strings_Split cs sep
      else (case strings_Split cs sep of
              [] \<Rightarrow> [[c]]
            | t # ts \<Rightarrow> (c # t) # ts))"

definition index :: "'a list \<Rightarrow> nat \<Rightarrow> error + 'a" where
  \<comment> \<open>Go's \<open>tokens[i]\<close>: panics when \<open>i\<close> is out of range\<close>
  "index xs i = (if i < length xs then Inr (xs ! i) else Inl (PanicIndexOutOfRange i (length xs)))"

definition getSchemaDetailsFromKey :: "string \<Rightarrow> error + ConfigSchemaDetails" where
  "getSchemaDetailsFromKey key =
     (let tokens = strings_Split key (CHR ''/'') in
      (case index tokens 0 of Inl e \<Rightarrow> Inl e | Inr organization \<Rightarrow>
      (case index tokens 1 of Inl e \<Rightarrow> Inl e | Inr namespace \<Rightarrow>
      (case index tokens 2 of Inl e \<Rightarrow> Inl e | Inr schemaName \<Rightarrow>
      (case index tokens 3 of Inl e \<Rightarrow> Inl e | Inr version \<Rightarrow>
        Inr \<lparr>Organization = organization, Namespace = namespace,
             SchemaName = schemaName, Version = version\<rparr>)))))"

subsection \<open>Version comparison: package semver\<close>

text \<open>
  \<open>GetSchemasByPrefix\<close> orders its result with \<open>semver.Compare\<close> of
  \<^verbatim>\<open>golang.org/x/mod/semver\<close> (imported on line 15), a library outside the repository.
  The definitions of this subsection follow that package function by function. A version
  accepted by the package has the form \<open>vMAJOR[.MINOR[.PATCH[-PRERELEASE][+BUILD]]]\<close>: the
  leading \<open>v\<close> is required, and a string that is not of this form is invalid.
\<close>

record parsed =
  major :: string
  minor :: string
  patch :: string
  short :: string
  prerelease :: string
  build :: string

definition is_digit :: "char \<Rightarrow> bool" where
  "is_digit c = (CHR ''0'' \<le> c \<and> c \<le> CHR ''9'')"

definition isIdentChar :: "char \<Rightarrow> bool" where
  "isIdentChar c =
     (CHR ''A'' \<le> c \<and> c \<le> CHR ''Z'' \<or> CHR ''a'' \<le> c \<and> c \<le> CHR ''z'' \<or>
      CHR ''0'' \<le> c \<and> c \<le> CHR ''9'' \<or> c = CHR ''-'')"

definition isBadNum :: "string \<Rightarrow> bool" where
  \<comment> \<open>all digits, more than one of them, and a leading zero\<close>
  "isBadNum v = (list_all is_digit v \<and> length v > 1 \<and> hd v = CHR ''0'')"

definition isNum :: "string \<Rightarrow> bool" where
  "isNum v = list_all is_digit v"

definition parseInt :: "string \<Rightarrow> (string \<times> string) option" where
  "parseInt v =
     (if v = [] then None
      else if \<not> is_digit (hd v) then None
      else if hd v = CHR ''0'' \<and> length (takeWhile is_digit v) \<noteq> 1 then None
      else Some (takeWhile is_digit v, dropWhile is_digit v))"

fun prerelease_loop :: "string \<Rightarrow> string \<Rightarrow> string \<Rightarrow> (string \<times> string) option" where
  \<comment> \<open>the loop of \<open>parsePrerelease\<close>: \<open>seen\<close> is \<open>v[:i]\<close>, \<open>cur\<close> is \<open>v[start:i]\<close>,
      the third argument is \<open>v[i:]\<close>\<close>
  "prerelease_loop seen cur [] =
     (if cur = [] \<or> isBadNum cur then None else Some (seen, []))"
| "prerelease_loop seen cur (c # cs) =
     (if c = CHR ''+'' then
        (if cur = [] \<or> isBadNum cur then None else Some (seen, c # cs))
      else if \<not> isIdentChar c \<and> c \<noteq> CHR ''.'' then None
      else if c = CHR ''.'' then
        (if cur = [] \<or> isBadNum cur then None else prerelease_loop (seen @ [c]) [] cs)
      else prerelease_loop (seen @ [c]) (cur @ [c]) cs)"

definition parsePrerelease :: "string \<Rightarrow> (string \<times> string) option" where
  "parsePrerelease v =
     (if v = [] \<or> hd v \<noteq> CHR ''-'' then None else prerelease_loop [hd v] [] (tl v))"

fun build_loop :: "string \<Rightarrow> string \<Rightarrow> string \<Rightarrow> (string \<times> string) option" where
  "build_loop seen cur [] = (if cur = [] then None else Some (seen, []))"
| "build_loop seen cur (c # cs) =
     (if \<not> isIdentChar c \<and> c \<noteq> CHR ''.'' then None
      else if c = CHR ''.'' then
        (if cur = [] then None else build_loop (seen @ [c]) [] cs)
      else build_loop (seen @ [c]) (cur @ [c]) cs)"

definition parseBuild :: "string \<Rightarrow> (string \<times> string) option" where
  "parseBuild v =
     (if v = [] \<or> hd v \<noteq> CHR ''+'' then None else build_loop [hd v] [] (tl v))"

definition parse_tail :: "parsed \<Rightarrow> string \<Rightarrow> parsed option" where
  \<comment> \<open>the end of \<open>parse\<close>, after the patch number: pre-release, build, nothing else\<close>
  "parse_tail p v =
     (case (if v \<noteq> [] \<and> hd v = CHR ''-''
            then map_option (\<lambda>(t, r). (p\<lparr>prerelease := t\<rparr>, r)) (parsePrerelease v)
            else Some (p, v)) of
        None \<Rightarrow> None
      | Some (p1, v1) \<Rightarrow>
          (case (if v1 \<noteq> [] \<and> hd v1 = CHR ''+''
                 then map_option (\<lambda>(t, r). (p1\<lparr>build := t\<rparr>, r)) (parseBuild v1)
                 else Some (p1, v1)) of
             None \<Rightarrow> None
           | Some (p2, v2) \<Rightarrow> if v2 \<noteq> [] then None else Some p2))"

definition parse :: "string \<Rightarrow> parsed option" where
  "parse v =
     (if v = [] \<or> hd v \<noteq> CHR ''v'' then None
      else (case parseInt (tl v) of
        None \<Rightarrow> None
      | Some (ma, v1) \<Rightarrow>
          if v1 = [] then
            Some \<lparr>major = ma, minor = ''0'', patch = ''0'', short = ''.0.0'',
                  prerelease = [], build = []\<rparr>
          else if hd v1 \<noteq> CHR ''.'' then None
          else (case parseInt (tl v1) of
            None \<Rightarrow> None
          | Some (mi, v2) \<Rightarrow>
              if v2 = [] then
                Some \<lparr>major = ma, minor = mi, patch = ''0'', short = ''.0'',
                      prerelease = [], build = []\<rparr>
              else if hd v2 \<noteq> CHR ''.'' then None
              else (case parseInt (tl v2) of
                None \<Rightarrow> None
              | Some (pa, v3) \<Rightarrow>
                  parse_tail \<lparr>major = ma, minor = mi, patch = pa, short = [],
                              prerelease = [], build = []\<rparr> v3))))"

definition compareInt :: "string \<Rightarrow> string \<Rightarrow> int" where
  "compareInt x y =
     (if x = y then 0
      else if length x < length y then - 1
      else if length x > length y then 1
      else if x < y then - 1 else 1)"

definition nextIdent :: "string \<Rightarrow> string \<times> string" where
  "nextIdent x = (takeWhile (\<lambda>c. c \<noteq> CHR ''.'') x, dropWhile (\<lambda>c. c \<noteq> CHR ''.'') x)"

function comparePrerelease_loop :: "string \<Rightarrow> string \<Rightarrow> int" where
  "comparePrerelease_loop x y =
     (if x \<noteq> [] \<and> y \<noteq> [] then
        (let dx = fst (nextIdent (tl x)); x' = snd (nextIdent (tl x));
             dy = fst (nextIdent (tl y)); y' = snd (nextIdent (tl y)) in
         if dx \<noteq> dy then
           (if isNum dx \<noteq> isNum dy then (if isNum dx then - 1 else 1)
            else if isNum dx \<and> length dx < length dy then - 1
            else if isNum dx \<and> length dx > length dy then 1
            else if dx < dy then - 1 else 1)
         else comparePrerelease_loop x' y')
      else if x = [] then - 1 else 1)"
  by pat_completeness auto
termination
  by (relation "measure (\<lambda>(x, y). length x)")
     (auto simp: nextIdent_def intro: le_less_trans [OF length_dropWhile_le])

definition comparePrerelease :: "string \<Rightarrow> string \<Rightarrow> int" where
  "comparePrerelease x y =
     (if x = y then 0
      else if x = [] then 1
      else if y = [] then - 1
      else comparePrerelease_loop x y)"

definition semver_Compare :: "string \<Rightarrow> string \<Rightarrow> int" where
  \<comment> \<open>an invalid version is less than a valid one; two invalid versions are equal\<close>
  "semver_Compare v w =
     (case (parse v, parse w) of
        (None, None) \<Rightarrow> 0
      | (None, Some pw) \<Rightarrow> - 1
      | (Some pv, None) \<Rightarrow> 1
      | (Some pv, Some pw) \<Rightarrow>
          if compareInt (major pv) (major pw) \<noteq> 0 then compareInt (major pv) (major pw)
          else if compareInt (minor pv) (minor pw) \<noteq> 0 then compareInt (minor pv) (minor pw)
          else if compareInt (patch pv) (patch pw) \<noteq> 0 then compareInt (patch pv) (patch pw)
          else comparePrerelease (prerelease pv) (prerelease pw))"

subsection \<open>Sorting: \<open>sort.Slice\<close>\<close>

text \<open>
  \<open>sort.Slice\<close> of the Go standard library sorts a slice of at most 12 elements by
  insertion sort, moving each element to the left while it is less than its left
  neighbour:
  \<^verbatim>\<open>for i := a + 1; i < b; i++ { for j := i; j > a && less(j, j-1); j-- { swap(j, j-1) } }\<close>
  \<open>sort_Slice\<close> is this loop. For a longer slice the library uses another algorithm:
  the result is again sorted by the given comparison, but elements that compare equal may come in
  another order than here.
\<close>

fun sink :: "('a \<Rightarrow> 'a \<Rightarrow> bool) \<Rightarrow> 'a \<Rightarrow> 'a list \<Rightarrow> 'a list" where
  \<comment> \<open>the inner loop; the sorted part to the left of \<open>x\<close> is held in reverse\<close>
  "sink lt x [] = [x]"
| "sink lt x (y # ys) = (if lt x y then y # sink lt x ys else x # y # ys)"

definition sort_Slice :: "('a \<Rightarrow> 'a \<Rightarrow> bool) \<Rightarrow> 'a list \<Rightarrow> 'a list" where
  "sort_Slice lt xs = rev (foldl (\<lambda>acc x. sink lt x acc) [] xs)"

subsection \<open>The repository\<close>

text \<open>
  Each function takes the handle's store as a \<open>world\<close> and returns its result with the
  world after the call. The tracing span and the context with its deadline are not
  modelled: a deadline that expires is a call of the client that fails.

  \<open>SaveConfigSchema\<close> makes two calls of the client, a \<open>Get\<close> and a \<open>Put\<close>. The model
  splits it at that point: \<open>save_check\<close> is lines 50 to 56, \<open>save_write\<close> is lines 57 to
  70 (\<open>now\<close> is the value of \<open>time.Now()\<close> on line 63), and \<open>SaveConfigSchema\<close> runs one
  after the other.
\<close>

definition save_check :: "world \<Rightarrow> string \<Rightarrow> (error + unit) \<times> world" where
  "save_check w key =
     (case client_Get w key of
        (Inl err, w1) \<Rightarrow> (Inl err, w1)
      | (Inr res, w1) \<Rightarrow>
          if Count res > 0 then (Inl (key_exists key), w1) else (Inr (), w1))"

definition save_write ::
  "libs \<Rightarrow> Timestamp \<Rightarrow> world \<Rightarrow> string \<Rightarrow> string \<Rightarrow> (error + unit) \<times> world" where
  "save_write L now w key schema =
     (case YAMLToJSON L schema of
        Inl err \<Rightarrow> (Inl err, w)
      | Inr schemaJson \<Rightarrow>
          (case json_Marshal L \<lparr>Schema = schemaJson, CreationTime = Some now\<rparr> of
             Inl err \<Rightarrow> (Inl err, w)
           | Inr serializedData \<Rightarrow> client_Put w key serializedData))"

definition SaveConfigSchema ::
  "libs \<Rightarrow> Timestamp \<Rightarrow> world \<Rightarrow> string \<Rightarrow> string \<Rightarrow> (error + unit) \<times> world" where
  "SaveConfigSchema L now w key schema =
     (case save_check w key of
        (Inl err, w1) \<Rightarrow> (Inl err, w1)
      | (Inr u, w1) \<Rightarrow> save_write L now w1 key schema)"

definition GetConfigSchema ::
  "libs \<Rightarrow> world \<Rightarrow> string \<Rightarrow> (error + ConfigSchemaData option) \<times> world" where
  \<comment> \<open>\<open>Inr None\<close> is the result \<open>(nil, nil)\<close> of line 85\<close>
  "GetConfigSchema L w key =
     (case client_Get w key of
        (Inl err, w1) \<Rightarrow> (Inl err, w1)
      | (Inr resp, w1) \<Rightarrow>
          (case Kvs resp of
             [] \<Rightarrow> (Inr None, w1)
           | kv # _ \<Rightarrow>
               (case json_Unmarshal L (snd kv) of
                  Inl err \<Rightarrow> (Inl err, w1)
                | Inr schemaData \<Rightarrow>
                    (case JSONToYAML L (Schema schemaData) of
                       Inl err \<Rightarrow> (Inl err, w1)
                     | Inr schemaYaml \<Rightarrow>
                         (Inr (Some (schemaData\<lparr>Schema := schemaYaml\<rparr>)), w1)))))"

definition DeleteConfigSchema :: "world \<Rightarrow> string \<Rightarrow> (error + unit) \<times> world" where
  "DeleteConfigSchema w key =
     (case client_Delete w key of
        (Inl err, w1) \<Rightarrow> (Inl err, w1)
      | (Inr deleted, w1) \<Rightarrow>
          if deleted > 0 then (Inr (), w1) else (Inl (no_schema key), w1))"

fun decode_kvs :: "libs \<Rightarrow> (string \<times> string) list \<Rightarrow> error + ConfigSchema list" where
  \<comment> \<open>the loop of lines 130 to 145: the first failure ends the call\<close>
  "decode_kvs L [] = Inr []"
| "decode_kvs L (schemaKv # rest) =
     (case getSchemaDetailsFromKey (fst schemaKv) of
        Inl err \<Rightarrow> Inl err
      | Inr schemaDetails \<Rightarrow>
          (case json_Unmarshal L (snd schemaKv) of
             Inl err \<Rightarrow> Inl err
           | Inr schemaData \<Rightarrow>
               (case JSONToYAML L (Schema schemaData) of
                  Inl err \<Rightarrow> Inl err
                | Inr schemaYaml \<Rightarrow>
                    (case decode_kvs L rest of
                       Inl err \<Rightarrow> Inl err
                     | Inr schemas \<Rightarrow>
                         Inr (\<lparr>SchemaDetails = schemaDetails,
                               SchemaData = schemaData\<lparr>Schema := schemaYaml\<rparr>\<rparr> # schemas)))))"

definition version_less :: "ConfigSchema \<Rightarrow> ConfigSchema \<Rightarrow> bool" where
  \<comment> \<open>the comparison of line 147\<close>
  "version_less a b =
     (semver_Compare (Version (SchemaDetails a)) (Version (SchemaDetails b)) = - 1)"

definition GetSchemasByPrefix ::
  "libs \<Rightarrow> world \<Rightarrow> string \<Rightarrow> (error + ConfigSchema list) \<times> world" where
  \<comment> \<open>the nil slice of line 127 is the empty list\<close>
  "GetSchemasByPrefix L w p =
     (case client_Get_WithPrefix w p of
        (Inl err, w1) \<Rightarrow> (Inl err, w1)
      | (Inr res, w1) \<Rightarrow>
          if Count res = 0 then (Inr [], w1)
          else (case decode_kvs L (Kvs res) of
                  Inl err \<Rightarrow> (Inl err, w1)
                | Inr schemas \<Rightarrow> (Inr (sort_Slice version_less schemas), w1)))"

definition GetLatestVersionByPrefix ::
  "libs \<Rightarrow> world \<Rightarrow> string \<Rightarrow> (error + string) \<times> world" where
  "GetLatestVersionByPrefix L w p =
     (case GetSchemasByPrefix L w p of
        (Inl err, w1) \<Rightarrow> (Inl err, w1)
      | (Inr schemas, w1) \<Rightarrow>
          if length schemas = 0 then (Inr [], w1)
          else (Inr (Version (SchemaDetails (schemas ! (length schemas - 1)))), w1))"

subsection \<open>The constructor\<close>

text \<open>
  The package variables \<open>endpoint\<close> and \<open>timeout\<close> (lines 20 to 23) are set when the
  package is loaded; \<open>endpoint\<close> is read from the environment of the process, a map from
  variable names to values. \<open>clientv3.New\<close> is the library's constructor, a parameter of
  the model. \<open>time.Duration\<close> counts nanoseconds.
\<close>

record Config =
  Endpoints :: "string list"
  DialTimeout :: int

record 'c EtcdRepository =
  client :: 'c

definition os_Getenv :: "(string \<rightharpoonup> string) \<Rightarrow> string \<Rightarrow> string" where
  \<comment> \<open>the value of the variable, empty when it is not set\<close>
  "os_Getenv env name = (case env name of None \<Rightarrow> [] | Some v \<Rightarrow> v)"

definition endpoint :: "(string \<rightharpoonup> string) \<Rightarrow> string" where
  "endpoint env = os_Getenv env ''ETCD_ADDRESS''"

definition timeout :: int where
  "timeout = 5 * 1000000000"

definition NewClient ::
  "(Config \<Rightarrow> 'c \<times> error option) \<Rightarrow> (string \<rightharpoonup> string) \<Rightarrow> 'c EtcdRepository \<times> error option" where
  "NewClient clientv3_New env =
     (case clientv3_New \<lparr>Endpoints = [endpoint env], DialTimeout = timeout\<rparr> of
        (cli, err) \<Rightarrow> (\<lparr>client = cli\<rparr>, err))"

subsection \<open>Interleaved and repeated calls\<close>

text \<open>
  \<open>save_all\<close> runs calls of \<open>SaveConfigSchema\<close> on one key one after the other and
  collects their results. \<open>save_pair_interleaved\<close> runs two calls on one key so that
  both make their \<open>Get\<close> before either makes its \<open>Put\<close>, an order that two callers of
  a shared handle can produce since nothing in the repository excludes it.
\<close>

fun save_all ::
  "libs \<Rightarrow> world \<Rightarrow> string \<Rightarrow> (Timestamp \<times> string) list \<Rightarrow> (error + unit) list \<times> world" where
  "save_all L w key [] = ([], w)"
| "save_all L w key (c # cs) =
     (case SaveConfigSchema L (fst c) w key (snd c) of
        (r, w1) \<Rightarrow> (case save_all L w1 key cs of (rs, w2) \<Rightarrow> (r # rs, w2)))"

definition save_pair_interleaved ::
  "libs \<Rightarrow> world \<Rightarrow> string \<Rightarrow> Timestamp \<times> string \<Rightarrow> Timestamp \<times> string \<Rightarrow>
   ((error + unit) \<times> (error + unit)) \<times> world" where
  "save_pair_interleaved L w key a b =
     (case save_check w key of
        (Inl erra, w1) \<Rightarrow>
          (case SaveConfigSchema L (fst b) w1 key (snd b) of (rb, w2) \<Rightarrow> ((Inl erra, rb), w2))
      | (Inr ua, w1) \<Rightarrow>
          (case save_check w1 key of
             (Inl errb, w2) \<Rightarrow>
               (case save_write L (fst a) w2 key (snd a) of (ra, w3) \<Rightarrow> ((ra, Inl errb), w3))
           | (Inr ub, w2) \<Rightarrow>
               (case save_write L (fst a) w2 key (snd a) of
                  (ra, w3) \<Rightarrow>
                    (case save_write L (fst b) w3 key (snd b) of
                       (rb, w4) \<Rightarrow> ((ra, rb), w4)))))"

subsection \<open>An instance of the libraries for running the model\<close>

text \<open>
  To run the model on concrete inputs, \<open>plain_libs\<close> is a simple instance of \<open>libs\<close>:
  both transcodings return their text as it is, and a \<open>ConfigSchemaData\<close> is stored as its
  creation time in decimal (\<open>seconds,nanos\<close>, or \<open>-\<close> when there is none), a semicolon,
  and the schema. It stands for the real encoders only in that decoding what was
  encoded gives the value back and that other text is refused.
\<close>

function show_digits :: "int \<Rightarrow> string" where
  "show_digits n =
     (if n < 10 then [char_of (48 + n)]
      else show_digits (n div 10) @ [char_of (48 + n mod 10)])"
  by pat_completeness auto
termination
  by (relation "measure nat") auto

declare show_digits.simps [simp del]

definition show_int :: "int \<Rightarrow> string" where
  "show_int i = (if i < 0 then CHR ''-'' # show_digits (- i) else show_digits i)"

definition read_digits :: "string \<Rightarrow> int option" where
  "read_digits s =
     (if s = [] \<or> \<not> list_all is_digit s then None
      else Some (foldl (\<lambda>a c. 10 * a + (of_char c - 48)) 0 s))"

definition read_int :: "string \<Rightarrow> int option" where
  "read_int s =
     (if s \<noteq> [] \<and> hd s = CHR ''-'' then map_option uminus (read_digits (tl s))
      else read_digits s)"

definition plain_Marshal :: "ConfigSchemaData \<Rightarrow> error + string" where
  "plain_Marshal d =
     Inr ((case CreationTime d of
             None \<Rightarrow> ''-''
           | Some t \<Rightarrow> show_int (Seconds t) @ '','' @ show_int (Nanos t)) @ '';'' @ Schema d)"

definition plain_Unmarshal :: "string \<Rightarrow> error + ConfigSchemaData" where
  "plain_Unmarshal v =
     (let header = takeWhile (\<lambda>c. c \<noteq> CHR '';'') v;
          rest = dropWhile (\<lambda>c. c \<noteq> CHR '';'') v;
          first = takeWhile (\<lambda>c. c \<noteq> CHR '','') header;
          second = dropWhile (\<lambda>c. c \<noteq> CHR '','') header in
      if rest = [] then Inl (JsonError ''unexpected end of input'')
      else if header = ''-'' then Inr \<lparr>Schema = tl rest, CreationTime = None\<rparr>
      else if second = [] then Inl (JsonError ''invalid creation time'')
      else (case (read_int first, read_int (tl second)) of
              (Some s, Some n) \<Rightarrow>
                Inr \<lparr>Schema = tl rest, CreationTime = Some \<lparr>Seconds = s, Nanos = n\<rparr>\<rparr>
            | _ \<Rightarrow> Inl (JsonError ''invalid creation time'')))"

definition plain_libs :: libs where
  "plain_libs = \<lparr>YAMLToJSON = Inr, JSONToYAML = Inr,
                  json_Marshal = plain_Marshal, json_Unmarshal = plain_Unmarshal\<rparr>"

definition empty_world :: world where
  "empty_world = \<lparr>kvs = [], pending = []\<rparr>"

section \<open>Facts about the store\<close>

lemma kvs_advance: "kvs (advance w) = kvs w"
  by (simp add: advance_def)

lemma advance_pending_update: "(advance w)\<lparr>pending := q\<rparr> = w\<lparr>pending := q\<rparr>"
  by (simp add: advance_def)

lemma client_Get_ok:
  "next_fault w = None \<Longrightarrow>
   client_Get w key =
     (Inr \<lparr>Count = int (length (range_key key (kvs w))), Kvs = range_key key (kvs w)\<rparr>, advance w)"
  by (simp add: client_Get_def)

lemma client_Get_fault:
  "next_fault w = Some msg \<Longrightarrow> client_Get w key = (Inl (ClientError msg), advance w)"
  by (simp add: client_Get_def)

lemma range_key_put_fresh:
  "range_key k xs = [] \<Longrightarrow> range_key k (put_kv k v xs) = [(k, v)]"
  by (induction xs) (auto simp: range_key_def split: if_splits)

lemma range_key_put_nonempty: "range_key k (put_kv k v xs) \<noteq> []"
  by (induction xs) (auto simp: range_key_def)

lemma filter_other_keys:
  "range_key k xs = [] \<Longrightarrow> filter (\<lambda>kv. fst kv \<noteq> k) xs = xs"
  by (induction xs) (auto simp: range_key_def split: if_splits)

lemma range_key_after_delete: "range_key k (filter (\<lambda>kv. fst kv \<noteq> k) xs) = []"
  by (induction xs) (auto simp: range_key_def)

lemma save_check_cases:
  "save_check w key =
     (case next_fault w of
        Some msg \<Rightarrow> (Inl (ClientError msg), advance w)
      | None \<Rightarrow> if range_key key (kvs w) = [] then (Inr (), advance w)
                else (Inl (key_exists key), advance w))"
  by (auto simp: save_check_def client_Get_def split: option.splits)

lemma save_check_kvs: "kvs (snd (save_check w key)) = kvs w"
  by (auto simp: save_check_cases kvs_advance split: option.splits)

lemma SaveConfigSchema_present:
  assumes "range_key key (kvs w) \<noteq> []"
  shows "SaveConfigSchema L now w key schema =
           (Inl (case next_fault w of Some msg \<Rightarrow> ClientError msg | None \<Rightarrow> key_exists key),
            advance w)"
  using assms by (auto simp: SaveConfigSchema_def save_check_cases split: option.splits)

lemma SaveConfigSchema_success:
  assumes "SaveConfigSchema L now w key schema = (Inr (), w1)"
  shows "\<exists>j v. next_fault w = None \<and> range_key key (kvs w) = [] \<and>
               YAMLToJSON L schema = Inr j \<and>
               json_Marshal L \<lparr>Schema = j, CreationTime = Some now\<rparr> = Inr v \<and>
               next_fault (advance w) = None \<and>
               w1 = (advance (advance w))\<lparr>kvs := put_kv key v (kvs w)\<rparr>"
  using assms
  by (auto simp: SaveConfigSchema_def save_check_cases save_write_def client_Put_def kvs_advance
           split: option.splits if_splits sum.splits)

lemma GetConfigSchema_kvs: "kvs (snd (GetConfigSchema L w key)) = kvs w"
  by (auto simp: GetConfigSchema_def client_Get_def kvs_advance
           split: option.splits list.splits sum.splits)

lemma GetConfigSchema_single:
  assumes "range_key key (kvs w) = [(key, v)]" and "next_fault w = None"
  shows "fst (GetConfigSchema L w key) =
           (case json_Unmarshal L v of
              Inl e \<Rightarrow> Inl e
            | Inr d \<Rightarrow> (case JSONToYAML L (Schema d) of
                          Inl e \<Rightarrow> Inl e
                        | Inr y \<Rightarrow> Inr (Some (d\<lparr>Schema := y\<rparr>))))"
  using assms by (simp add: GetConfigSchema_def client_Get_ok split: sum.splits)

section \<open>Reading an absent key\<close>

text \<open>
  Claim C6. \<open>GetConfigSchema\<close> returns the absent outcome \<open>(nil, nil)\<close>, and no error,
  exactly when the store answers the read and holds no record at the key. When the store
  does not answer, the result is the client's error, a different outcome.
\<close>
theorem GetConfigSchema_absent_is_not_an_error:
  "(fst (GetConfigSchema L w key) = Inr None) =
     (next_fault w = None \<and> range_key key (kvs w) = []) \<and>
   (next_fault w = Some msg \<longrightarrow> fst (GetConfigSchema L w key) = Inl (ClientError msg))"
  by (auto simp: GetConfigSchema_def client_Get_def split: option.splits list.splits sum.splits)

theorem GetConfigSchema_absent_is_not_an_error_witness:
  "fst (GetConfigSchema plain_libs empty_world ''org/ns/app/v1.0.0'') = Inr None \<and>
   next_fault (empty_world\<lparr>pending := [Some ''context deadline exceeded'']\<rparr>) =
     Some ''context deadline exceeded'' \<and>
   fst (GetConfigSchema plain_libs (empty_world\<lparr>pending := [Some ''context deadline exceeded'']\<rparr>)
          ''org/ns/app/v1.0.0'') = Inl (ClientError ''context deadline exceeded'')"
proof -
  have a: "next_fault empty_world = None \<and> range_key ''org/ns/app/v1.0.0'' (kvs empty_world) = []"
    by (simp add: next_fault_def empty_world_def range_key_def)
  have b: "next_fault (empty_world\<lparr>pending := [Some ''context deadline exceeded'']\<rparr>) =
             Some ''context deadline exceeded''"
    by (simp add: next_fault_def)
  from a b GetConfigSchema_absent_is_not_an_error
         [of plain_libs empty_world "''org/ns/app/v1.0.0''"]
       GetConfigSchema_absent_is_not_an_error
         [of plain_libs "empty_world\<lparr>pending := [Some ''context deadline exceeded'']\<rparr>"
             "''org/ns/app/v1.0.0''" "''context deadline exceeded''"]
  show ?thesis by blast
qed

section \<open>Deleting\<close>

text \<open>
  Claim C7. When the store answers: \<open>DeleteConfigSchema\<close> on a key with no record fails
  with the error \<open>No schema with key ... found!\<close> and changes nothing; on a key with a
  record it succeeds, no record is left at the key, and a following \<open>GetConfigSchema\<close>
  on that key, answered by the store, reports absent.
\<close>
theorem DeleteConfigSchema_outcomes:
  assumes "next_fault w = None"
  shows "(range_key key (kvs w) = [] \<longrightarrow>
            DeleteConfigSchema w key = (Inl (no_schema key), advance w)) \<and>
         (range_key key (kvs w) \<noteq> [] \<longrightarrow>
            fst (DeleteConfigSchema w key) = Inr () \<and>
            range_key key (kvs (snd (DeleteConfigSchema w key))) = [] \<and>
            (next_fault (snd (DeleteConfigSchema w key)) = None \<longrightarrow>
               fst (GetConfigSchema L (snd (DeleteConfigSchema w key)) key) = Inr None))"
proof -
  have del: "client_Delete w key =
      (Inr (int (length (range_key key (kvs w)))),
       (advance w)\<lparr>kvs := filter (\<lambda>kv. fst kv \<noteq> key) (kvs w)\<rparr>)"
    using assms by (simp add: client_Delete_def)
  show ?thesis
  proof (cases "range_key key (kvs w) = []")
    case True
    then show ?thesis
      by (simp add: DeleteConfigSchema_def del filter_other_keys kvs_advance)
  next
    case False
    then have r: "DeleteConfigSchema w key =
        (Inr (), (advance w)\<lparr>kvs := filter (\<lambda>kv. fst kv \<noteq> key) (kvs w)\<rparr>)"
      by (simp add: DeleteConfigSchema_def del)
    show ?thesis
      using False
      by (simp add: r range_key_after_delete GetConfigSchema_def client_Get_def)
  qed
qed

theorem DeleteConfigSchema_outcomes_witness:
  "next_fault \<lparr>kvs = [(''org/ns/app/v1.0.0'', ''-;{}'')], pending = []\<rparr> = None \<and>
   range_key ''org/ns/app/v2.0.0'' [(''org/ns/app/v1.0.0'', ''-;{}'')] = [] \<and>
   fst (DeleteConfigSchema \<lparr>kvs = [(''org/ns/app/v1.0.0'', ''-;{}'')], pending = []\<rparr>
          ''org/ns/app/v2.0.0'') = Inl (no_schema ''org/ns/app/v2.0.0'') \<and>
   range_key ''org/ns/app/v1.0.0'' [(''org/ns/app/v1.0.0'', ''-;{}'')] \<noteq> [] \<and>
   fst (DeleteConfigSchema \<lparr>kvs = [(''org/ns/app/v1.0.0'', ''-;{}'')], pending = []\<rparr>
          ''org/ns/app/v1.0.0'') = Inr () \<and>
   fst (GetConfigSchema plain_libs
          (snd (DeleteConfigSchema \<lparr>kvs = [(''org/ns/app/v1.0.0'', ''-;{}'')], pending = []\<rparr>
                  ''org/ns/app/v1.0.0''))
          ''org/ns/app/v1.0.0'') = Inr None"
proof -
  let ?w = "\<lparr>kvs = [(''org/ns/app/v1.0.0'', ''-;{}'')], pending = []\<rparr>"
  have nf: "next_fault ?w = None"
    by (simp add: next_fault_def)
  have absent: "range_key ''org/ns/app/v2.0.0'' (kvs ?w) = []"
    by (simp add: range_key_def)
  have present: "range_key ''org/ns/app/v1.0.0'' (kvs ?w) \<noteq> []"
    by (simp add: range_key_def)
  have nf': "next_fault (snd (DeleteConfigSchema ?w ''org/ns/app/v1.0.0'')) = None"
    by (simp add: DeleteConfigSchema_def client_Delete_def next_fault_def advance_def
          range_key_def)
  from DeleteConfigSchema_outcomes [OF nf, of "''org/ns/app/v2.0.0''" plain_libs] absent
  have a: "fst (DeleteConfigSchema ?w ''org/ns/app/v2.0.0'') = Inl (no_schema ''org/ns/app/v2.0.0'')"
    by simp
  from DeleteConfigSchema_outcomes [OF nf, of "''org/ns/app/v1.0.0''" plain_libs] present nf'
  have b: "fst (DeleteConfigSchema ?w ''org/ns/app/v1.0.0'') = Inr () \<and>
           fst (GetConfigSchema plain_libs (snd (DeleteConfigSchema ?w ''org/ns/app/v1.0.0''))
                  ''org/ns/app/v1.0.0'') = Inr None"
    by blast
  from nf absent present a b show ?thesis by simp
qed

section \<open>Saving on a key that holds a record\<close>

text \<open>
  Claim C1. After a successful \<open>SaveConfigSchema\<close> of \<open>s1\<close> on a key, a second
  \<open>SaveConfigSchema\<close> on that key fails, with the error \<open>Key ... already exists!\<close> when
  the store answers the check, and leaves the store as it was: the key still holds the
  one record \<open>v\<close> serialised from \<open>s1\<close> with the first creation time. Every
  \<open>GetConfigSchema\<close> that the store answers on that content returns the decoding of
  \<open>v\<close>; when the libraries read back what they wrote (\<open>json.Unmarshal\<close> inverts
  \<open>json.Marshal\<close> on this record and \<open>JSONToYAML\<close> gives \<open>y\<close> on the canonical
  form of \<open>s1\<close>), it returns the text \<open>y\<close> of \<open>s1\<close> with the first creation time,
  and nothing of \<open>s2\<close>.
\<close>
theorem SaveConfigSchema_existing_key_conflict:
  assumes "SaveConfigSchema L t1 w0 key s1 = (Inr (), w1)"
  shows "(\<exists>e. fst (SaveConfigSchema L t2 w1 key s2) = Inl e) \<and>
         (next_fault w1 = None \<longrightarrow> fst (SaveConfigSchema L t2 w1 key s2) = Inl (key_exists key)) \<and>
         kvs (snd (SaveConfigSchema L t2 w1 key s2)) = kvs w1 \<and>
         (\<exists>j v. YAMLToJSON L s1 = Inr j \<and>
                json_Marshal L \<lparr>Schema = j, CreationTime = Some t1\<rparr> = Inr v \<and>
                range_key key (kvs (snd (SaveConfigSchema L t2 w1 key s2))) = [(key, v)] \<and>
                (\<forall>w. kvs w = kvs (snd (SaveConfigSchema L t2 w1 key s2)) \<and> next_fault w = None \<longrightarrow>
                   fst (GetConfigSchema L w key) =
                     (case json_Unmarshal L v of
                        Inl e \<Rightarrow> Inl e
                      | Inr d \<Rightarrow> (case JSONToYAML L (Schema d) of
                                    Inl e \<Rightarrow> Inl e
                                  | Inr y \<Rightarrow> Inr (Some (d\<lparr>Schema := y\<rparr>)))) \<and>
                   (\<forall>y. json_Unmarshal L v = Inr \<lparr>Schema = j, CreationTime = Some t1\<rparr> \<and>
                        JSONToYAML L j = Inr y \<longrightarrow>
                        fst (GetConfigSchema L w key) =
                          Inr (Some \<lparr>Schema = y, CreationTime = Some t1\<rparr>))))"
proof -
  let ?w2 = "snd (SaveConfigSchema L t2 w1 key s2)"
  from SaveConfigSchema_success [OF assms] obtain j v where
    j: "YAMLToJSON L s1 = Inr j" and
    v: "json_Marshal L \<lparr>Schema = j, CreationTime = Some t1\<rparr> = Inr v" and
    fresh: "range_key key (kvs w0) = []" and
    w1: "w1 = (advance (advance w0))\<lparr>kvs := put_kv key v (kvs w0)\<rparr>"
    by blast
  have stored: "range_key key (kvs w1) = [(key, v)]"
    using fresh by (simp add: w1 range_key_put_fresh)
  then have present: "range_key key (kvs w1) \<noteq> []"
    by simp
  note second = SaveConfigSchema_present [OF present, of L t2 s2]
  have c1: "\<exists>e. fst (SaveConfigSchema L t2 w1 key s2) = Inl e"
    by (simp add: second)
  have c2: "next_fault w1 = None \<longrightarrow>
      fst (SaveConfigSchema L t2 w1 key s2) = Inl (key_exists key)"
    by (simp add: second)
  have same: "kvs ?w2 = kvs w1"
    by (simp add: second kvs_advance)
  have kept: "range_key key (kvs ?w2) = [(key, v)]"
    using stored same by simp
  have get: "fst (GetConfigSchema L w key) =
        (case json_Unmarshal L v of
           Inl e \<Rightarrow> Inl e
         | Inr d \<Rightarrow> (case JSONToYAML L (Schema d) of
                       Inl e \<Rightarrow> Inl e
                     | Inr y \<Rightarrow> Inr (Some (d\<lparr>Schema := y\<rparr>))))"
    if "kvs w = kvs ?w2 \<and> next_fault w = None" for w
    using that kept by (intro GetConfigSchema_single) simp_all
  have rt: "fst (GetConfigSchema L w key) = Inr (Some \<lparr>Schema = y, CreationTime = Some t1\<rparr>)"
    if "kvs w = kvs ?w2 \<and> next_fault w = None"
      and "json_Unmarshal L v = Inr \<lparr>Schema = j, CreationTime = Some t1\<rparr> \<and> JSONToYAML L j = Inr y"
    for w y
    using get [OF that(1)] that(2) by simp
  have c4: "\<exists>j v. YAMLToJSON L s1 = Inr j \<and>
                json_Marshal L \<lparr>Schema = j, CreationTime = Some t1\<rparr> = Inr v \<and>
                range_key key (kvs ?w2) = [(key, v)] \<and>
                (\<forall>w. kvs w = kvs ?w2 \<and> next_fault w = None \<longrightarrow>
                   fst (GetConfigSchema L w key) =
                     (case json_Unmarshal L v of
                        Inl e \<Rightarrow> Inl e
                      | Inr d \<Rightarrow> (case JSONToYAML L (Schema d) of
                                    Inl e \<Rightarrow> Inl e
                                  | Inr y \<Rightarrow> Inr (Some (d\<lparr>Schema := y\<rparr>)))) \<and>
                   (\<forall>y. json_Unmarshal L v = Inr \<lparr>Schema = j, CreationTime = Some t1\<rparr> \<and>
                        JSONToYAML L j = Inr y \<longrightarrow>
                        fst (GetConfigSchema L w key) =
                          Inr (Some \<lparr>Schema = y, CreationTime = Some t1\<rparr>)))"
    apply (rule exI [of _ j], rule exI [of _ v])
    apply (intro conjI allI impI)
        apply (rule j)
       apply (rule v)
      apply (rule kept)
     apply (erule get)
    apply (erule rt, assumption)
    done
  from c1 c2 same c4 show ?thesis by (intro conjI)
qed

theorem SaveConfigSchema_existing_key_conflict_witness:
  "SaveConfigSchema plain_libs \<lparr>Seconds = 1700000000, Nanos = 5\<rparr> empty_world
     ''org/ns/app/v1.0.0'' ''a: 1'' =
     (Inr (), \<lparr>kvs = [(''org/ns/app/v1.0.0'', ''1700000000,5;a: 1'')], pending = []\<rparr>) \<and>
   SaveConfigSchema plain_libs \<lparr>Seconds = 1700000060, Nanos = 0\<rparr>
          \<lparr>kvs = [(''org/ns/app/v1.0.0'', ''1700000000,5;a: 1'')], pending = []\<rparr>
          ''org/ns/app/v1.0.0'' ''a: 2'' =
     (Inl (key_exists ''org/ns/app/v1.0.0''),
      \<lparr>kvs = [(''org/ns/app/v1.0.0'', ''1700000000,5;a: 1'')], pending = []\<rparr>) \<and>
   fst (GetConfigSchema plain_libs
          (snd (SaveConfigSchema plain_libs \<lparr>Seconds = 1700000060, Nanos = 0\<rparr>
             \<lparr>kvs = [(''org/ns/app/v1.0.0'', ''1700000000,5;a: 1'')], pending = []\<rparr>
             ''org/ns/app/v1.0.0'' ''a: 2''))
          ''org/ns/app/v1.0.0'') =
     Inr (Some \<lparr>Schema = ''a: 1'',
                 CreationTime = Some \<lparr>Seconds = 1700000000, Nanos = 5\<rparr>\<rparr>)"
proof -
  let ?T1 = "\<lparr>Seconds = 1700000000, Nanos = 5\<rparr>"
  let ?T2 = "\<lparr>Seconds = 1700000060, Nanos = 0\<rparr>"
  let ?k = "''org/ns/app/v1.0.0''"
  let ?w1 = "\<lparr>kvs = [(?k, ''1700000000,5;a: 1'')], pending = []\<rparr>"
  let ?w2 = "snd (SaveConfigSchema plain_libs ?T2 ?w1 ?k ''a: 2'')"
  have first: "SaveConfigSchema plain_libs ?T1 empty_world ?k ''a: 1'' = (Inr (), ?w1)"
    by code_simp
  have second: "SaveConfigSchema plain_libs ?T2 ?w1 ?k ''a: 2'' = (Inl (key_exists ?k), ?w1)"
    by code_simp
  have nf: "next_fault ?w2 = None"
    by (simp add: second next_fault_def)
  have yj: "YAMLToJSON plain_libs ''a: 1'' = Inr ''a: 1''"
    by (simp add: plain_libs_def)
  have jy: "JSONToYAML plain_libs ''a: 1'' = Inr ''a: 1''"
    by (simp add: plain_libs_def)
  have m: "json_Marshal plain_libs \<lparr>Schema = ''a: 1'', CreationTime = Some ?T1\<rparr> =
      Inr ''1700000000,5;a: 1''"
    by code_simp
  have u: "json_Unmarshal plain_libs ''1700000000,5;a: 1'' =
      Inr \<lparr>Schema = ''a: 1'', CreationTime = Some ?T1\<rparr>"
    by code_simp
  from SaveConfigSchema_existing_key_conflict [OF first, of ?T2 "''a: 2''"] obtain j v where
    j: "YAMLToJSON plain_libs ''a: 1'' = Inr j" and
    v: "json_Marshal plain_libs \<lparr>Schema = j, CreationTime = Some ?T1\<rparr> = Inr v" and
    get: "\<forall>w. kvs w = kvs ?w2 \<and> next_fault w = None \<longrightarrow>
            (\<forall>y. json_Unmarshal plain_libs v = Inr \<lparr>Schema = j, CreationTime = Some ?T1\<rparr> \<and>
                 JSONToYAML plain_libs j = Inr y \<longrightarrow>
                 fst (GetConfigSchema plain_libs w ?k) =
                   Inr (Some \<lparr>Schema = y, CreationTime = Some ?T1\<rparr>))"
    by blast
  from j yj have j': "j = ''a: 1''" by simp
  from v m have v': "v = ''1700000000,5;a: 1''" by (simp add: j')
  from get nf u jy
  have "fst (GetConfigSchema plain_libs ?w2 ?k) =
      Inr (Some \<lparr>Schema = ''a: 1'', CreationTime = Some ?T1\<rparr>)"
    unfolding j' v' by blast
  with first second show ?thesis by simp
qed

section \<open>Facts about listing\<close>

lemma set_sink: "set (sink lt x ys) = insert x (set ys)"
  by (induction ys) auto

lemma set_foldl_sink: "set (foldl (\<lambda>acc x. sink lt x acc) acc xs) = set acc \<union> set xs"
  by (induction xs arbitrary: acc) (auto simp: set_sink)

lemma set_sort_Slice: "set (sort_Slice lt xs) = set xs"
  by (simp add: sort_Slice_def set_foldl_sink)

lemma sort_Slice_Nil_iff: "(sort_Slice lt xs = []) = (xs = [])"
  using set_sort_Slice [of lt xs] by (metis set_empty)

lemma client_Get_WithPrefix_kvs: "kvs (snd (client_Get_WithPrefix w p)) = kvs w"
  by (simp add: client_Get_WithPrefix_def kvs_advance split: option.splits)

lemma decode_kvs_elems:
  "decode_kvs L xs = Inr schemas \<Longrightarrow> x \<in> set schemas \<Longrightarrow>
   \<exists>kv stored. kv \<in> set xs \<and>
     getSchemaDetailsFromKey (fst kv) = Inr (SchemaDetails x) \<and>
     json_Unmarshal L (snd kv) = Inr stored \<and>
     JSONToYAML L (Schema stored) = Inr (Schema (SchemaData x)) \<and>
     SchemaData x = stored\<lparr>Schema := Schema (SchemaData x)\<rparr>"
proof (induction xs arbitrary: schemas)
  case Nil
  then show ?case by simp
next
  case (Cons kv rest)
  from Cons.prems(1) obtain details stored yaml tail where
    d: "getSchemaDetailsFromKey (fst kv) = Inr details" and
    u: "json_Unmarshal L (snd kv) = Inr stored" and
    y: "JSONToYAML L (Schema stored) = Inr yaml" and
    t: "decode_kvs L rest = Inr tail" and
    s: "schemas = \<lparr>SchemaDetails = details, SchemaData = stored\<lparr>Schema := yaml\<rparr>\<rparr> # tail"
    by (auto split: sum.splits)
  show ?case
  proof (cases "x \<in> set tail")
    case True
    from Cons.IH [OF t True] show ?thesis by auto
  next
    case False
    with Cons.prems(2) s have "x = \<lparr>SchemaDetails = details, SchemaData = stored\<lparr>Schema := yaml\<rparr>\<rparr>"
      by simp
    with d u y show ?thesis
      by (intro exI [of _ kv] exI [of _ stored]) simp
  qed
qed

lemma GetSchemasByPrefix_success:
  assumes "fst (GetSchemasByPrefix L w p) = Inr out"
  shows "next_fault w = None \<and>
         (\<exists>schemas. decode_kvs L (range_prefix p (kvs w)) = Inr schemas \<and>
                    out = sort_Slice version_less schemas)"
proof (cases "next_fault w")
  case (Some msg)
  with assms show ?thesis
    by (simp add: GetSchemasByPrefix_def client_Get_WithPrefix_def)
next
  case None
  show ?thesis
  proof (cases "range_prefix p (kvs w) = []")
    case True
    with None assms show ?thesis
      by (auto simp: GetSchemasByPrefix_def client_Get_WithPrefix_def sort_Slice_def)
  next
    case False
    with None assms show ?thesis
      by (auto simp: GetSchemasByPrefix_def client_Get_WithPrefix_def split: sum.splits)
  qed
qed

section \<open>What a read returns of the stored envelope\<close>

text \<open>
  Claim C10. A record that \<open>GetConfigSchema\<close> returns is the envelope that
  \<open>json.Unmarshal\<close> read from the value stored at the key, with its \<open>Schema\<close> replaced by
  the result of \<open>JSONToYAML\<close> on it and nothing else changed: the creation time is the one
  of the stored envelope. The same holds of every element that \<open>GetSchemasByPrefix\<close>
  returns, for the value stored at a key under the prefix whose parts are the element's
  details.
\<close>
theorem reads_keep_creation_time:
  "(fst (GetConfigSchema L w key) = Inr (Some d) \<longrightarrow>
      (\<exists>v rest stored.
         range_key key (kvs w) = (key, v) # rest \<and>
         json_Unmarshal L v = Inr stored \<and>
         JSONToYAML L (Schema stored) = Inr (Schema d) \<and>
         d = stored\<lparr>Schema := Schema d\<rparr> \<and>
         CreationTime d = CreationTime stored)) \<and>
   (fst (GetSchemasByPrefix L w p) = Inr out \<longrightarrow>
      (\<forall>x \<in> set out.
         \<exists>kv stored.
           kv \<in> set (kvs w) \<and> has_prefix p (fst kv) \<and>
           getSchemaDetailsFromKey (fst kv) = Inr (SchemaDetails x) \<and>
           json_Unmarshal L (snd kv) = Inr stored \<and>
           JSONToYAML L (Schema stored) = Inr (Schema (SchemaData x)) \<and>
           SchemaData x = stored\<lparr>Schema := Schema (SchemaData x)\<rparr> \<and>
           CreationTime (SchemaData x) = CreationTime stored))"
proof (intro conjI impI ballI)
  assume g: "fst (GetConfigSchema L w key) = Inr (Some d)"
  then obtain kv rest stored yaml where
    r: "range_key key (kvs w) = kv # rest" and
    u: "json_Unmarshal L (snd kv) = Inr stored" and
    y: "JSONToYAML L (Schema stored) = Inr yaml" and
    d: "d = stored\<lparr>Schema := yaml\<rparr>"
    by (auto simp: GetConfigSchema_def client_Get_def
             split: option.splits list.splits sum.splits)
  have "kv \<in> set (range_key key (kvs w))"
    by (simp add: r)
  then have "fst kv = key"
    by (simp add: range_key_def)
  then have k: "kv = (key, snd kv)"
    by (cases kv) simp
  from d have sd: "Schema d = yaml"
    by simp
  from d have cd: "CreationTime d = CreationTime stored"
    by simp
  from d sd have dd: "d = stored\<lparr>Schema := Schema d\<rparr>"
    by simp
  from r k have r': "range_key key (kvs w) = (key, snd kv) # rest"
    by simp
  from y sd have y': "JSONToYAML L (Schema stored) = Inr (Schema d)"
    by simp
  from r' u y' dd cd show "\<exists>v rest stored.
         range_key key (kvs w) = (key, v) # rest \<and>
         json_Unmarshal L v = Inr stored \<and>
         JSONToYAML L (Schema stored) = Inr (Schema d) \<and>
         d = stored\<lparr>Schema := Schema d\<rparr> \<and>
         CreationTime d = CreationTime stored"
    by (intro exI [of _ "snd kv"] exI [of _ rest] exI [of _ stored] conjI)
next
  fix x
  assume l: "fst (GetSchemasByPrefix L w p) = Inr out" and x: "x \<in> set out"
  from GetSchemasByPrefix_success [OF l] obtain schemas where
    dec: "decode_kvs L (range_prefix p (kvs w)) = Inr schemas" and
    out: "out = sort_Slice version_less schemas"
    by blast
  from x out have "x \<in> set schemas"
    by (simp add: set_sort_Slice)
  from decode_kvs_elems [OF dec this] obtain kv stored where
    kv: "kv \<in> set (range_prefix p (kvs w))" and
    k: "getSchemaDetailsFromKey (fst kv) = Inr (SchemaDetails x)" and
    u: "json_Unmarshal L (snd kv) = Inr stored" and
    y: "JSONToYAML L (Schema stored) = Inr (Schema (SchemaData x))" and
    s: "SchemaData x = stored\<lparr>Schema := Schema (SchemaData x)\<rparr>"
    by blast
  from s have "CreationTime (SchemaData x) = CreationTime (stored\<lparr>Schema := Schema (SchemaData x)\<rparr>)"
    by simp
  then have c: "CreationTime (SchemaData x) = CreationTime stored"
    by simp
  from kv have m: "kv \<in> set (kvs w)" and h: "has_prefix p (fst kv)"
    by (simp_all add: range_prefix_def)
  from m h k u y s c show "\<exists>kv stored.
           kv \<in> set (kvs w) \<and> has_prefix p (fst kv) \<and>
           getSchemaDetailsFromKey (fst kv) = Inr (SchemaDetails x) \<and>
           json_Unmarshal L (snd kv) = Inr stored \<and>
           JSONToYAML L (Schema stored) = Inr (Schema (SchemaData x)) \<and>
           SchemaData x = stored\<lparr>Schema := Schema (SchemaData x)\<rparr> \<and>
           CreationTime (SchemaData x) = CreationTime stored"
    by (intro exI [of _ kv] exI [of _ stored] conjI)
qed

theorem reads_keep_creation_time_witness:
  "fst (GetConfigSchema plain_libs
          \<lparr>kvs = [(''org/ns/app/v1.0.0'', ''1700000000,5;a: 1''),
                  (''org/ns/app/v1.1.0'', ''1700000060,0;a: 2'')], pending = []\<rparr>
          ''org/ns/app/v1.1.0'') =
     Inr (Some \<lparr>Schema = ''a: 2'',
                 CreationTime = Some \<lparr>Seconds = 1700000060, Nanos = 0\<rparr>\<rparr>) \<and>
   (\<exists>v rest stored.
      range_key ''org/ns/app/v1.1.0''
        [(''org/ns/app/v1.0.0'', ''1700000000,5;a: 1''),
         (''org/ns/app/v1.1.0'', ''1700000060,0;a: 2'')] = (''org/ns/app/v1.1.0'', v) # rest \<and>
      json_Unmarshal plain_libs v = Inr stored \<and>
      CreationTime stored = Some \<lparr>Seconds = 1700000060, Nanos = 0\<rparr>) \<and>
   fst (GetSchemasByPrefix plain_libs
          \<lparr>kvs = [(''org/ns/app/v1.0.0'', ''1700000000,5;a: 1''),
                  (''org/ns/app/v1.1.0'', ''1700000060,0;a: 2'')], pending = []\<rparr>
          ''org/ns/app'') =
     Inr [\<lparr>SchemaDetails = \<lparr>Organization = ''org'', Namespace = ''ns'', SchemaName = ''app'',
                              Version = ''v1.0.0''\<rparr>,
           SchemaData = \<lparr>Schema = ''a: 1'',
                          CreationTime = Some \<lparr>Seconds = 1700000000, Nanos = 5\<rparr>\<rparr>\<rparr>,
          \<lparr>SchemaDetails = \<lparr>Organization = ''org'', Namespace = ''ns'', SchemaName = ''app'',
                              Version = ''v1.1.0''\<rparr>,
           SchemaData = \<lparr>Schema = ''a: 2'',
                          CreationTime = Some \<lparr>Seconds = 1700000060, Nanos = 0\<rparr>\<rparr>\<rparr>] \<and>
   (\<exists>kv stored.
      kv \<in> set [(''org/ns/app/v1.0.0'', ''1700000000,5;a: 1''),
                (''org/ns/app/v1.1.0'', ''1700000060,0;a: 2'')] \<and>
      getSchemaDetailsFromKey (fst kv) =
        Inr \<lparr>Organization = ''org'', Namespace = ''ns'', SchemaName = ''app'',
             Version = ''v1.0.0''\<rparr> \<and>
      json_Unmarshal plain_libs (snd kv) = Inr stored \<and>
      CreationTime stored = Some \<lparr>Seconds = 1700000000, Nanos = 5\<rparr>)"
proof -
  let ?kvs = "[(''org/ns/app/v1.0.0'', ''1700000000,5;a: 1''),
               (''org/ns/app/v1.1.0'', ''1700000060,0;a: 2'')]"
  let ?w = "\<lparr>kvs = ?kvs, pending = []\<rparr>"
  let ?k = "''org/ns/app/v1.1.0''"
  let ?d = "\<lparr>Schema = ''a: 2'', CreationTime = Some \<lparr>Seconds = 1700000060, Nanos = 0\<rparr>\<rparr>"
  let ?dx = "\<lparr>Organization = ''org'', Namespace = ''ns'', SchemaName = ''app'',
              Version = ''v1.0.0''\<rparr>"
  let ?x = "\<lparr>SchemaDetails = ?dx,
           SchemaData = \<lparr>Schema = ''a: 1'',
                          CreationTime = Some \<lparr>Seconds = 1700000000, Nanos = 5\<rparr>\<rparr>\<rparr>"
  let ?y = "\<lparr>SchemaDetails = \<lparr>Organization = ''org'', Namespace = ''ns'', SchemaName = ''app'',
                              Version = ''v1.1.0''\<rparr>,
           SchemaData = \<lparr>Schema = ''a: 2'',
                          CreationTime = Some \<lparr>Seconds = 1700000060, Nanos = 0\<rparr>\<rparr>\<rparr>"
  have g: "fst (GetConfigSchema plain_libs ?w ?k) = Inr (Some ?d)"
    by code_simp
  have l: "fst (GetSchemasByPrefix plain_libs ?w ''org/ns/app'') = Inr [?x, ?y]"
    by code_simp
  note t = reads_keep_creation_time [of plain_libs ?w ?k ?d "''org/ns/app''" "[?x, ?y]"]
  have kw: "kvs ?w = ?kvs"
    by simp
  have cd: "CreationTime ?d = Some \<lparr>Seconds = 1700000060, Nanos = 0\<rparr>"
    by simp
  have cx: "CreationTime (SchemaData ?x) = Some \<lparr>Seconds = 1700000000, Nanos = 5\<rparr>"
    by simp
  have dx: "SchemaDetails ?x = ?dx"
    by simp
  have mem: "?x \<in> set [?x, ?y]"
    by simp
  from t [THEN conjunct1, THEN mp, OF g] obtain v rest stored where
    r: "range_key ?k (kvs ?w) = (?k, v) # rest" and
    u: "json_Unmarshal plain_libs v = Inr stored" and
    c: "CreationTime ?d = CreationTime stored"
    by (elim exE conjE) (rule that)
  from r have r': "range_key ?k ?kvs = (?k, v) # rest"
    by (simp only: kw)
  from c have c': "CreationTime stored = Some \<lparr>Seconds = 1700000060, Nanos = 0\<rparr>"
    by (simp only: cd)
  from r' u c' have a: "\<exists>v rest stored.
      range_key ?k ?kvs = (?k, v) # rest \<and>
      json_Unmarshal plain_libs v = Inr stored \<and>
      CreationTime stored = Some \<lparr>Seconds = 1700000060, Nanos = 0\<rparr>"
    by (intro exI [of _ v] exI [of _ rest] exI [of _ stored] conjI)
  from t [THEN conjunct2, THEN mp, OF l, THEN bspec, OF mem] obtain kv stored' where
    m: "kv \<in> set (kvs ?w)" and
    k: "getSchemaDetailsFromKey (fst kv) = Inr (SchemaDetails ?x)" and
    u': "json_Unmarshal plain_libs (snd kv) = Inr stored'" and
    e: "CreationTime (SchemaData ?x) = CreationTime stored'"
    by (elim exE conjE) (rule that)
  from m have m': "kv \<in> set ?kvs"
    by (simp only: kw)
  from k have k': "getSchemaDetailsFromKey (fst kv) = Inr ?dx"
    by (simp only: dx)
  from e have e': "CreationTime stored' = Some \<lparr>Seconds = 1700000000, Nanos = 5\<rparr>"
    by (simp only: cx)
  from m' k' u' e' have b: "\<exists>kv stored.
      kv \<in> set ?kvs \<and>
      getSchemaDetailsFromKey (fst kv) = Inr ?dx \<and>
      json_Unmarshal plain_libs (snd kv) = Inr stored \<and>
      CreationTime stored = Some \<lparr>Seconds = 1700000000, Nanos = 5\<rparr>"
    by (intro exI [of _ kv] exI [of _ stored'] conjI)
  from g a l b show ?thesis
    by (intro conjI)
qed

section \<open>The latest version\<close>

text \<open>
  Claim C8. \<open>GetLatestVersionByPrefix\<close> returns the \<open>Version\<close> of the last element of the
  list that \<open>GetSchemasByPrefix\<close> returns on the same store and prefix, and the empty string
  when that list is empty; it fails with the error of \<open>GetSchemasByPrefix\<close> when that fails,
  and leaves the store as \<open>GetSchemasByPrefix\<close> leaves it. When the store answers and holds
  no key under the prefix, the list is empty with no error and the latest version is the
  empty string.
\<close>
theorem GetLatestVersionByPrefix_is_last_of_list:
  "(fst (GetSchemasByPrefix L w p) = Inr schemas \<longrightarrow>
      fst (GetLatestVersionByPrefix L w p) =
        Inr (if schemas = [] then [] else Version (SchemaDetails (last schemas)))) \<and>
   (fst (GetSchemasByPrefix L w p) = Inl err \<longrightarrow>
      fst (GetLatestVersionByPrefix L w p) = Inl err) \<and>
   snd (GetLatestVersionByPrefix L w p) = snd (GetSchemasByPrefix L w p) \<and>
   (next_fault w = None \<and> range_prefix p (kvs w) = [] \<longrightarrow>
      fst (GetSchemasByPrefix L w p) = Inr [] \<and>
      fst (GetLatestVersionByPrefix L w p) = Inr [])"
proof -
  obtain r w1 where g: "GetSchemasByPrefix L w p = (r, w1)"
    by (cases "GetSchemasByPrefix L w p")
  have e: "next_fault w = None \<and> range_prefix p (kvs w) = [] \<longrightarrow>
      GetSchemasByPrefix L w p = (Inr [], advance w)"
    by (simp add: GetSchemasByPrefix_def client_Get_WithPrefix_def)
  show ?thesis
  proof (cases r)
    case (Inl e')
    with g e show ?thesis
      by (auto simp: GetLatestVersionByPrefix_def)
  next
    case (Inr xs)
    with g e show ?thesis
      by (auto simp: GetLatestVersionByPrefix_def last_conv_nth)
  qed
qed

theorem GetLatestVersionByPrefix_is_last_of_list_witness:
  "fst (GetSchemasByPrefix plain_libs
          \<lparr>kvs = [(''org/ns/app/v1.0.0'', ''1700000000,5;a: 1''),
                  (''org/ns/app/v1.1.0'', ''1700000060,0;a: 2'')], pending = []\<rparr>
          ''org/ns/app'') =
     Inr [\<lparr>SchemaDetails = \<lparr>Organization = ''org'', Namespace = ''ns'', SchemaName = ''app'',
                              Version = ''v1.0.0''\<rparr>,
           SchemaData = \<lparr>Schema = ''a: 1'',
                          CreationTime = Some \<lparr>Seconds = 1700000000, Nanos = 5\<rparr>\<rparr>\<rparr>,
          \<lparr>SchemaDetails = \<lparr>Organization = ''org'', Namespace = ''ns'', SchemaName = ''app'',
                              Version = ''v1.1.0''\<rparr>,
           SchemaData = \<lparr>Schema = ''a: 2'',
                          CreationTime = Some \<lparr>Seconds = 1700000060, Nanos = 0\<rparr>\<rparr>\<rparr>] \<and>
   fst (GetLatestVersionByPrefix plain_libs
          \<lparr>kvs = [(''org/ns/app/v1.0.0'', ''1700000000,5;a: 1''),
                  (''org/ns/app/v1.1.0'', ''1700000060,0;a: 2'')], pending = []\<rparr>
          ''org/ns/app'') = Inr ''v1.1.0'' \<and>
   fst (GetSchemasByPrefix plain_libs
          \<lparr>kvs = [], pending = [Some ''context deadline exceeded'']\<rparr> ''org/ns/app'') =
     Inl (ClientError ''context deadline exceeded'') \<and>
   fst (GetLatestVersionByPrefix plain_libs
          \<lparr>kvs = [], pending = [Some ''context deadline exceeded'']\<rparr> ''org/ns/app'') =
     Inl (ClientError ''context deadline exceeded'') \<and>
   fst (GetSchemasByPrefix plain_libs empty_world ''org/ns/app'') = Inr [] \<and>
   fst (GetLatestVersionByPrefix plain_libs empty_world ''org/ns/app'') = Inr []"
proof -
  let ?w = "\<lparr>kvs = [(''org/ns/app/v1.0.0'', ''1700000000,5;a: 1''),
                  (''org/ns/app/v1.1.0'', ''1700000060,0;a: 2'')], pending = []\<rparr>"
  let ?x = "\<lparr>SchemaDetails = \<lparr>Organization = ''org'', Namespace = ''ns'', SchemaName = ''app'',
                              Version = ''v1.0.0''\<rparr>,
           SchemaData = \<lparr>Schema = ''a: 1'',
                          CreationTime = Some \<lparr>Seconds = 1700000000, Nanos = 5\<rparr>\<rparr>\<rparr>"
  let ?y = "\<lparr>SchemaDetails = \<lparr>Organization = ''org'', Namespace = ''ns'', SchemaName = ''app'',
                              Version = ''v1.1.0''\<rparr>,
           SchemaData = \<lparr>Schema = ''a: 2'',
                          CreationTime = Some \<lparr>Seconds = 1700000060, Nanos = 0\<rparr>\<rparr>\<rparr>"
  let ?f = "\<lparr>kvs = [], pending = [Some ''context deadline exceeded'']\<rparr>"
  let ?e = "ClientError ''context deadline exceeded''"
  have l: "fst (GetSchemasByPrefix plain_libs ?w ''org/ns/app'') = Inr [?x, ?y]"
    by code_simp
  have f: "fst (GetSchemasByPrefix plain_libs ?f ''org/ns/app'') = Inl ?e"
    by code_simp
  have e: "next_fault empty_world = None \<and> range_prefix ''org/ns/app'' (kvs empty_world) = []"
    by (simp add: next_fault_def empty_world_def range_prefix_def)
  have a0: "fst (GetLatestVersionByPrefix plain_libs ?w ''org/ns/app'') =
      Inr (if [?x, ?y] = [] then [] else Version (SchemaDetails (last [?x, ?y])))"
    by (rule GetLatestVersionByPrefix_is_last_of_list
               [of plain_libs ?w "''org/ns/app''" "[?x, ?y]", THEN conjunct1, THEN mp, OF l])
  have v: "(if [?x, ?y] = [] then [] else Version (SchemaDetails (last [?x, ?y]))) = ''v1.1.0''"
    by simp
  have a: "fst (GetLatestVersionByPrefix plain_libs ?w ''org/ns/app'') = Inr ''v1.1.0''"
    by (simp only: a0 v)
  have b: "fst (GetLatestVersionByPrefix plain_libs ?f ''org/ns/app'') = Inl ?e"
    by (rule GetLatestVersionByPrefix_is_last_of_list
               [of plain_libs ?f "''org/ns/app''" _ ?e,
                THEN conjunct2, THEN conjunct1, THEN mp, OF f])
  have c: "fst (GetSchemasByPrefix plain_libs empty_world ''org/ns/app'') = Inr [] \<and>
           fst (GetLatestVersionByPrefix plain_libs empty_world ''org/ns/app'') = Inr []"
    by (rule GetLatestVersionByPrefix_is_last_of_list
               [of plain_libs empty_world "''org/ns/app''",
                THEN conjunct2, THEN conjunct2, THEN conjunct2, THEN mp, OF e])
  from l a f b c show ?thesis
    by (intro conjI) (erule conjunct1 conjunct2 | assumption)+
qed

end
